theory Spec2Isabelle
  imports Complex_Main
begin

section \<open>The audio capture engine (src/audio/audio\_capture.py)\<close>

text \<open>
  The engine is a Python object whose methods mutate its fields; here every method takes
  the engine as a record and returns it updated. Samples are 32-bit floats in the source
  and reals here, so the rounding of the float arithmetic is left out; clock readings
  (\<open>time.time()\<close>) are reals handed to the function that reads the clock.

  What the engine does to its surroundings is written to the field \<open>trace\<close>, in order:
  a thread started, a thread joined, a message passed to the error callback, a chunk
  passed to the caller's chunk callback, a call of \<open>time.sleep\<close>. The \<open>print\<close> calls of
  the source are not recorded.
\<close>

type_synonym chunk = "real list"

text \<open>
  A thread object. The main thread is 0; every \<open>Thread(...)\<close> the engine creates takes
  the next number from the field \<open>next_tid\<close>.
\<close>

type_synonym tid = nat

record AudioDevice =
  dev_id :: int
  dev_name :: string
  dev_channels :: int
  dev_sample_rate :: int
  is_loopback :: bool
  is_default :: bool

text \<open>The exceptions that travel through the engine.\<close>

datatype exn =
    PyAudioNotAvailable          \<comment> \<open>\<open>RuntimeError("Error: PyAudio not available")\<close>\<close>
  | DeviceNotAvailable "int option"  \<comment> \<open>\<open>RuntimeError(f"Device {current_device_id} not available")\<close>\<close>
  | DeviceDisconnected           \<comment> \<open>\<open>RuntimeError("Device disconnected")\<close>\<close>
  | CannotJoinCurrentThread      \<comment> \<open>\<open>RuntimeError("cannot join current thread")\<close>, raised by \<open>Thread.join\<close>\<close>
  | BackendOSError string        \<comment> \<open>an \<open>OSError\<close> raised by the audio backend\<close>
  | BackendError string          \<comment> \<open>any other exception raised by the backend or by numpy\<close>

text \<open>The messages handed to the error callback, one constructor per string of the source.\<close>

datatype message =
    ErrorInCaptureLoop exn       \<comment> \<open>\<open>f"Error in capture loop: {e}"\<close>\<close>
  | AttemptingReconnect int int  \<comment> \<open>\<open>f"Attempting to reconnect ({n}/{max})..."\<close>\<close>
  | MaxReconnectReached          \<comment> \<open>\<open>"Maximum reconnection attempts reached. Please check your audio device."\<close>\<close>
  | AudioDeviceDisconnected "int option"  \<comment> \<open>\<open>f"Audio device {current_device_id} disconnected"\<close>\<close>
  | SelectDifferentDevice        \<comment> \<open>\<open>"Please select a different audio device in settings"\<close>\<close>
  | PyAudioNotAvailableMsg       \<comment> \<open>\<open>"Error: PyAudio not available"\<close>\<close>

text \<open>
  A chunk callback is either a callable of the caller (numbered) or the closure
  \<open>primary_callback\<close> that \<open>start_multi_source_capture\<close> builds around one.
\<close>

datatype callback = UserCallback nat | PrimaryCallback callback

datatype target = CaptureLoopTarget | SecondaryCaptureLoopTarget int

datatype effect =
    ThreadStarted tid target
  | Joined tid real
  | ErrorReported nat message
  | ChunkDelivered nat chunk
  | Sleep real

record engine =
  cfg_sample_rate :: int
  cfg_chunk_duration :: real
  cfg_vad_threshold :: real
  is_capturing :: bool
  capture_thread :: "tid option"
  stop_event :: bool
  callback :: "callback option"
  pyaudio_instance :: bool
  stream :: bool
  current_device_id :: "int option"
  current_audio_level :: real
  silence_start_time :: "real option"
  is_paused :: bool
  reconnect_attempts :: int
  max_reconnect_attempts :: int
  reconnect_delay :: real
  last_error :: "message option"
  error_callback :: "nat option"
  secondary_device_id :: "int option"
  secondary_thread :: "tid option"
  secondary_stop_event :: bool
  primary_buffer :: "chunk list"
  secondary_buffer :: "chunk list"
  next_tid :: tid
  trace :: "effect list"

text \<open>\<open>__init__\<close>, with the defaults of \<open>AudioConfig\<close>; \<open>pa\<close> says whether PyAudio could be loaded.\<close>

definition init_engine :: "bool \<Rightarrow> engine" where
  "init_engine pa =
     \<lparr> cfg_sample_rate = 16000, cfg_chunk_duration = 1, cfg_vad_threshold = 1 / 100,
       is_capturing = False, capture_thread = None, stop_event = False, callback = None,
       pyaudio_instance = pa, stream = False, current_device_id = None,
       current_audio_level = 0, silence_start_time = None, is_paused = False,
       reconnect_attempts = 0, max_reconnect_attempts = 5, reconnect_delay = 5,
       last_error = None, error_callback = None, secondary_device_id = None,
       secondary_thread = None, secondary_stop_event = False, primary_buffer = [],
       secondary_buffer = [], next_tid = 1, trace = [] \<rparr>"

definition emit :: "effect \<Rightarrow> engine \<Rightarrow> engine" where
  "emit e s = s\<lparr>trace := trace s @ [e]\<rparr>"

text \<open>\<open>if self.error_callback: self.error_callback(msg)\<close>\<close>

definition report :: "message \<Rightarrow> engine \<Rightarrow> engine" where
  "report msg s =
     (case error_callback s of None \<Rightarrow> s | Some f \<Rightarrow> emit (ErrorReported f msg) s)"

text \<open>
  \<open>check_device_available\<close>: the list is what \<open>list_devices()\<close> returns at the moment of
  the call (the backend is outside the engine).
\<close>

definition check_device_available :: "AudioDevice list \<Rightarrow> int \<Rightarrow> bool" where
  "check_device_available devices device_id = list_ex (\<lambda>d. dev_id d = device_id) devices"

text \<open>The same call on \<open>self.current_device_id\<close>, which may be \<open>None\<close> (equal to no id).\<close>

definition current_device_available :: "AudioDevice list \<Rightarrow> engine \<Rightarrow> bool" where
  "current_device_available devices s =
     (case current_device_id s of None \<Rightarrow> False
      | Some d \<Rightarrow> check_device_available devices d)"

definition start_capture :: "int \<Rightarrow> callback \<Rightarrow> nat option \<Rightarrow> engine \<Rightarrow> bool \<times> engine" where
  "start_capture device_id cb ecb s =
     (if is_capturing s then (False, s)
      else
        let t = next_tid s;
            s1 = s\<lparr>callback := Some cb, error_callback := ecb,
                   current_device_id := Some device_id, stop_event := False,
                   reconnect_attempts := 0, capture_thread := Some t,
                   next_tid := Suc t, is_capturing := True\<rparr>
        in (True, emit (ThreadStarted t CaptureLoopTarget) s1))"

text \<open>
  \<open>Thread.join(timeout)\<close> called by thread \<open>me\<close>: Python raises a \<open>RuntimeError\<close> when a
  thread joins itself.
\<close>

definition join :: "tid \<Rightarrow> tid \<Rightarrow> real \<Rightarrow> engine \<Rightarrow> exn option \<times> engine" where
  "join me t timeout s =
     (if t = me then (Some CannotJoinCurrentThread, s) else (None, emit (Joined t timeout) s))"

definition join_if_set :: "tid \<Rightarrow> tid option \<Rightarrow> engine \<Rightarrow> exn option \<times> engine" where
  "join_if_set me th s = (case th of None \<Rightarrow> (None, s) | Some t \<Rightarrow> join me t 2 s)"

text \<open>Sequencing of two statements, the second skipped when the first raises.\<close>

definition and_then ::
  "exn option \<times> engine \<Rightarrow> (engine \<Rightarrow> exn option \<times> engine) \<Rightarrow> exn option \<times> engine" where
  "and_then r f = (case r of (Some e, s) \<Rightarrow> (Some e, s) | (None, s) \<Rightarrow> f s)"

definition stop_secondary :: "tid \<Rightarrow> engine \<Rightarrow> exn option \<times> engine" where
  "stop_secondary me s =
     (if secondary_device_id s \<noteq> None then
        and_then (join_if_set me (secondary_thread s) (s\<lparr>secondary_stop_event := True\<rparr>))
          (\<lambda>s'. (None, s'\<lparr>secondary_device_id := None, secondary_thread := None\<rparr>))
      else (None, s))"

definition stop_capture :: "tid \<Rightarrow> engine \<Rightarrow> exn option \<times> engine" where
  "stop_capture me s =
     (if \<not> is_capturing s then (None, s)
      else
        and_then (stop_secondary me (s\<lparr>stop_event := True\<rparr>)) (\<lambda>s1.
        and_then (join_if_set me (capture_thread s1) s1) (\<lambda>s2.
          (None, s2\<lparr>is_capturing := False, callback := None, current_device_id := None,
                    is_paused := False, silence_start_time := None,
                    primary_buffer := [], secondary_buffer := []\<rparr>))))"

definition set_device :: "tid \<Rightarrow> int \<Rightarrow> engine \<Rightarrow> exn option \<times> engine" where
  "set_device me device_id s =
     (if \<not> is_capturing s then (None, s\<lparr>current_device_id := Some device_id\<rparr>)
      else
        let saved_callback = callback s in
        and_then (stop_capture me s) (\<lambda>s1.
          case saved_callback of
            None \<Rightarrow> (None, s1)
          | Some cb \<Rightarrow> (None, snd (start_capture device_id cb None s1))))"

text \<open>
  \<open>_mix_and_callback\<close>. The callable is passed as the function that runs it.
  \<open>pop(0)\<close> takes the head of a queue; the slices \<open>[:min_len]\<close> are \<open>take\<close>.
\<close>

definition mix :: "chunk \<Rightarrow> chunk \<Rightarrow> chunk" where
  "mix primary_chunk secondary_chunk =
     (let min_len = min (length primary_chunk) (length secondary_chunk)
      in map (\<lambda>(x, y). (x + y) / 2)
           (zip (take min_len primary_chunk) (take min_len secondary_chunk)))"

definition mix_and_callback :: "(chunk \<Rightarrow> engine \<Rightarrow> engine) \<Rightarrow> engine \<Rightarrow> engine" where
  "mix_and_callback cb s =
     (case primary_buffer s of
        [] \<Rightarrow> s
      | primary_chunk # ps \<Rightarrow>
          (case secondary_buffer s of
             [] \<Rightarrow> s
           | secondary_chunk # qs \<Rightarrow>
               cb (mix primary_chunk secondary_chunk)
                  (s\<lparr>primary_buffer := ps, secondary_buffer := qs\<rparr>)))"

text \<open>Calling a chunk callback; the second equation is the body of \<open>primary_callback\<close>.\<close>

primrec invoke :: "callback \<Rightarrow> chunk \<Rightarrow> engine \<Rightarrow> engine" where
  "invoke (UserCallback n) = (\<lambda>audio_data s. emit (ChunkDelivered n audio_data) s)"
| "invoke (PrimaryCallback cb) =
     (\<lambda>audio_data s.
        mix_and_callback (invoke cb) (s\<lparr>primary_buffer := primary_buffer s @ [audio_data]\<rparr>))"

definition start_multi_source_capture ::
  "int list \<Rightarrow> callback \<Rightarrow> engine \<Rightarrow> bool \<times> engine" where
  "start_multi_source_capture device_ids cb s =
     (case device_ids of
        [] \<Rightarrow> (False, s)
      | [d] \<Rightarrow> start_capture d cb None s
      | primary_device # secondary_device # _ \<Rightarrow>
          if is_capturing s then (False, s)
          else
            let t1 = next_tid s;
                s1 = s\<lparr>primary_buffer := [], secondary_buffer := [],
                       callback := Some (PrimaryCallback cb),
                       current_device_id := Some primary_device, stop_event := False,
                       capture_thread := Some t1, next_tid := Suc t1,
                       is_capturing := True\<rparr>;
                s2 = emit (ThreadStarted t1 CaptureLoopTarget) s1;
                t2 = next_tid s2;
                s3 = s2\<lparr>secondary_device_id := Some secondary_device,
                        secondary_stop_event := False, secondary_thread := Some t2,
                        next_tid := Suc t2\<rparr>
            in (True, emit (ThreadStarted t2 (SecondaryCaptureLoopTarget secondary_device)) s3))"

text \<open>
  \<open>handle_device_disconnection\<close>: an exception of \<open>stop_capture\<close> leaves through it, so the
  second message is skipped then.
\<close>

definition handle_device_disconnection :: "tid \<Rightarrow> engine \<Rightarrow> exn option \<times> engine" where
  "handle_device_disconnection me s =
     (if \<not> is_capturing s then (None, s)
      else
        let error_msg = AudioDeviceDisconnected (current_device_id s);
            s1 = report error_msg (s\<lparr>last_error := Some error_msg\<rparr>)
        in and_then (stop_capture me s1) (\<lambda>s2. (None, report SelectDifferentDevice s2)))"

text \<open>\<open>_update_audio_level\<close>: the root mean square of the chunk, clamped to 1.\<close>

definition update_audio_level :: "chunk \<Rightarrow> engine \<Rightarrow> engine" where
  "update_audio_level audio_array s =
     (if length audio_array > 0 then
        let rms = sqrt (sum_list (map (\<lambda>x. x ^ 2) audio_array) / real (length audio_array))
        in s\<lparr>current_audio_level := min rms 1\<rparr>
      else s)"

text \<open>\<open>_should_pause_on_silence\<close>; \<open>now\<close> is the reading of \<open>time.time()\<close>.\<close>

definition should_pause_on_silence :: "real \<Rightarrow> engine \<Rightarrow> bool \<times> engine" where
  "should_pause_on_silence now s =
     (if current_audio_level s < cfg_vad_threshold s then
        (case silence_start_time s of
           None \<Rightarrow> (False, s\<lparr>silence_start_time := Some now\<rparr>)
         | Some t0 \<Rightarrow>
             let silence_duration = now - t0
             in if silence_duration > 3 then (True, s) else (False, s))
      else (False, s\<lparr>silence_start_time := None\<rparr>))"

subsection \<open>The capture thread: read loop and reconnection supervisor\<close>

text \<open>
  The capture thread runs \<open>_capture_loop\<close>, which calls \<open>_capture_loop_windows\<close> once per
  attempt to open the stream (the Windows branch of the platform test; the branch for the
  other platforms checks the device, resets the counter and raises in the same places).
  The audio backend is outside the engine, so what it answers is a script: for each
  attempt the device list the enumerator returns, the exception of
  \<open>get_device_info_by_index\<close> or \<open>open\<close> if one is raised, and then what each
  \<open>stream.read\<close> gives. \<open>StopSet\<close> stands for another thread setting the stop flag.
  A script that runs out while the loop is still waiting gives \<open>Unfinished\<close>.
  The chunk and error callbacks are taken to return normally.
\<close>

datatype read_event =
    Samples chunk real     \<comment> \<open>the samples read, and the clock when the silence test runs\<close>
  | ReadOSError string
  | ReadError string
  | StopSet

record attempt =
  listed :: "AudioDevice list"
  open_error :: "exn option"
  reads :: "read_event list"

datatype completion = Returned | Raised exn | Unfinished

text \<open>\<open>audio_array.reshape(-1, 2).mean(axis=1)\<close>; the reshape raises on an odd length.\<close>

fun pair_means :: "chunk \<Rightarrow> chunk option" where
  "pair_means [] = Some []"
| "pair_means [x] = None"
| "pair_means (x # y # zs) = map_option ((#) ((x + y) / 2)) (pair_means zs)"

definition to_mono :: "engine \<Rightarrow> chunk \<Rightarrow> chunk option" where
  "to_mono s audio_array =
     (if real (length audio_array) > real_of_int (cfg_sample_rate s) * cfg_chunk_duration s
      then pair_means audio_array else Some audio_array)"

text \<open>One pass of the read loop after a successful read and conversion.\<close>

definition process_chunk :: "chunk \<Rightarrow> real \<Rightarrow> engine \<Rightarrow> engine" where
  "process_chunk audio_array now s =
     (let s1 = update_audio_level audio_array s;
          r = should_pause_on_silence now s1;
          s2 = snd r
      in if fst r then (if \<not> is_paused s2 then s2\<lparr>is_paused := True\<rparr> else s2)
         else
           let s3 = (if is_paused s2 then s2\<lparr>is_paused := False\<rparr> else s2)
           in (case callback s3 of
                 None \<Rightarrow> s3
               | Some cb \<Rightarrow> if \<not> is_paused s3 then invoke cb audio_array s3 else s3))"

text \<open>
  The \<open>while not self.stop_event.is_set()\<close> loop of \<open>_capture_loop_windows\<close>; \<open>n\<close> is
  \<open>consecutive_errors\<close>, and 10 is \<open>max_consecutive_errors\<close>.
\<close>

fun read_loop :: "tid \<Rightarrow> read_event list \<Rightarrow> nat \<Rightarrow> engine \<Rightarrow> completion \<times> engine" where
  "read_loop me [] n s = (if stop_event s then (Returned, s) else (Unfinished, s))"
| "read_loop me (ev # evs) n s =
     (if stop_event s then (Returned, s)
      else
        (case ev of
           StopSet \<Rightarrow> read_loop me evs n (s\<lparr>stop_event := True\<rparr>)
         | Samples audio now \<Rightarrow>
             (case to_mono s audio of
                None \<Rightarrow> read_loop me evs 1 (emit (Sleep (1 / 10)) s)
              | Some audio_array \<Rightarrow> read_loop me evs 0 (process_chunk audio_array now s))
         | ReadOSError msg \<Rightarrow>
             if Suc n \<ge> 10 then
               (case handle_device_disconnection me s of
                  (Some e, s') \<Rightarrow> (Raised e, s')
                | (None, s') \<Rightarrow> (Raised DeviceDisconnected, s'))
             else read_loop me evs (Suc n) (emit (Sleep (1 / 10)) s)
         | ReadError msg \<Rightarrow>
             if Suc n \<ge> 10 then (Raised (BackendError msg), s)
             else read_loop me evs (Suc n) (emit (Sleep (1 / 10)) s)))"

text \<open>\<open>_capture_loop_windows\<close>; the last update is the \<open>finally\<close> block.\<close>

definition capture_loop_windows :: "tid \<Rightarrow> attempt \<Rightarrow> engine \<Rightarrow> completion \<times> engine" where
  "capture_loop_windows me a s =
     (if \<not> pyaudio_instance s then
        (Raised PyAudioNotAvailable, report PyAudioNotAvailableMsg s)
      else
        let r =
          (if \<not> current_device_available (listed a) s then
             (case handle_device_disconnection me s of
                (Some e, s') \<Rightarrow> (Raised e, s')
              | (None, s') \<Rightarrow> (Raised (DeviceNotAvailable (current_device_id s')), s'))
           else
             (case open_error a of
                Some e \<Rightarrow> (Raised e, s)
              | None \<Rightarrow> read_loop me (reads a) 0 (s\<lparr>stream := True, reconnect_attempts := 0\<rparr>)))
        in (fst r, (snd r)\<lparr>stream := False\<rparr>))"

text \<open>
  \<open>_capture_loop\<close>, the supervisor. It returns what is left of the script, so that a
  further attempt shows as a consumed entry.
\<close>

fun capture_loop ::
  "tid \<Rightarrow> attempt list \<Rightarrow> engine \<Rightarrow> completion \<times> attempt list \<times> engine" where
  "capture_loop me [] s = (if stop_event s then (Returned, [], s) else (Unfinished, [], s))"
| "capture_loop me (a # as) s =
     (if stop_event s then (Returned, a # as, s)
      else
        (case capture_loop_windows me a s of
           (Returned, s1) \<Rightarrow> (Returned, as, s1)
         | (Unfinished, s1) \<Rightarrow> (Unfinished, as, s1)
         | (Raised e, s1) \<Rightarrow>
             let error_msg = ErrorInCaptureLoop e;
                 s2 = report error_msg (s1\<lparr>last_error := Some error_msg\<rparr>)
             in if reconnect_attempts s2 < max_reconnect_attempts s2 then
                  let s3 = s2\<lparr>reconnect_attempts := reconnect_attempts s2 + 1\<rparr>;
                      s4 = report (AttemptingReconnect (reconnect_attempts s3)
                                     (max_reconnect_attempts s3)) s3;
                      s5 = emit (Sleep (reconnect_delay s4)) s4
                  in capture_loop me as s5
                else
                  (Returned, as, (report MaxReconnectReached s2)\<lparr>is_capturing := False\<rparr>)))"

section \<open>The window buffer (src/transcription/transcription\_engine.py)\<close>

text \<open>
  Whisper is outside the engine: \<open>recognize\<close> stands for everything inside the outer
  \<open>try\<close> of \<open>transcribe\<close> (writing the temporary file, running the model, reading text,
  language and confidence off its answer), with \<open>None\<close> when any of it raises.
  Timestamps are floats in the source and reals here.
\<close>

record TranscriptionResult =
  r_text :: string
  r_language :: string
  confidence :: real
  start_time :: real
  end_time :: real

record transcription_engine =
  model_loaded :: bool
  language :: "string option"
  audio_buffer :: "chunk list"
  chunk_index :: int
  sample_rate :: int

datatype transcribe_error = ModelNotLoaded | ZeroDivisionError

type_synonym recognizer = "chunk \<Rightarrow> string option \<Rightarrow> (string \<times> string \<times> real) option"

definition init_transcription_engine :: "transcription_engine" where
  "init_transcription_engine =
     \<lparr> model_loaded = True, language = None, audio_buffer = [], chunk_index = 0,
       sample_rate = 16000 \<rparr>"

text \<open>
  The \<open>TranscriptionResult\<close> that \<open>transcribe\<close> returns: from the answer of the model, or
  the empty one of its \<open>except\<close> branch.
\<close>

definition make_result ::
  "(string \<times> string \<times> real) option \<Rightarrow> real \<Rightarrow> real \<Rightarrow> TranscriptionResult" where
  "make_result answer start end =
     (case answer of
        Some (t, l, c) \<Rightarrow>
          \<lparr> r_text = t, r_language = l, confidence = c, start_time = start, end_time = end \<rparr>
      | None \<Rightarrow>
          \<lparr> r_text = [], r_language = ''unknown'', confidence = 0,
            start_time = start, end_time = end \<rparr>)"

text \<open>
  \<open>transcribe\<close>. The timestamps are computed before the \<open>try\<close>, from \<open>chunk_index\<close> and
  the length of the audio it is given; both branches advance \<open>chunk_index\<close>.
\<close>

definition transcribe ::
  "recognizer \<Rightarrow> chunk \<Rightarrow> string option \<Rightarrow> transcription_engine
     \<Rightarrow> (transcribe_error + TranscriptionResult) \<times> transcription_engine" where
  "transcribe recognize audio lang_arg e =
     (if \<not> model_loaded e then (Inl ModelNotLoaded, e)
      else if sample_rate e = 0 then (Inl ZeroDivisionError, e)
      else
        let lang = (case lang_arg of Some l \<Rightarrow> Some l | None \<Rightarrow> language e);
            start = real_of_int (chunk_index e * int (length audio)) / real_of_int (sample_rate e);
            end = start + real (length audio) / real_of_int (sample_rate e)
        in (Inr (make_result (recognize audio lang) start end),
            e\<lparr>chunk_index := chunk_index e + 1\<rparr>))"

text \<open>
  \<open>process_with_overlap\<close>; its parameter \<open>overlap_seconds\<close> is never read by the body.
  \<open>self.audio_buffer[-2:]\<close> and \<open>[-1:]\<close> are the last two and the last element.
\<close>

definition process_with_overlap ::
  "recognizer \<Rightarrow> chunk \<Rightarrow> transcription_engine
     \<Rightarrow> (transcribe_error + TranscriptionResult option) \<times> transcription_engine" where
  "process_with_overlap recognize audio_chunk e =
     (let e1 = e\<lparr>audio_buffer := audio_buffer e @ [audio_chunk]\<rparr>
      in if length (audio_buffer e1) < 2 then (Inr None, e1)
         else
           let combined = concat (drop (length (audio_buffer e1) - 2) (audio_buffer e1))
           in (case transcribe recognize combined None e1 of
                 (Inl err, e2) \<Rightarrow> (Inl err, e2)
               | (Inr result, e2) \<Rightarrow>
                   (Inr (Some result),
                    e2\<lparr>audio_buffer :=
                         drop (length (audio_buffer e2) - 1) (audio_buffer e2)\<rparr>)))"

definition reset_buffer :: "transcription_engine \<Rightarrow> transcription_engine" where
  "reset_buffer e = e\<lparr>audio_buffer := [], chunk_index := 0\<rparr>"

section \<open>Reading a trace\<close>

text \<open>The messages a trace hands to the error callback, in order.\<close>

fun error_reports :: "effect list \<Rightarrow> (nat \<times> message) list" where
  "error_reports [] = []"
| "error_reports (ErrorReported f m # es) = (f, m) # error_reports es"
| "error_reports (_ # es) = error_reports es"

text \<open>What one \<open>report\<close> adds to the trace.\<close>

definition reports :: "nat option \<Rightarrow> message \<Rightarrow> effect list" where
  "reports ecb msg = (case ecb of None \<Rightarrow> [] | Some f \<Rightarrow> [ErrorReported f msg])"

text \<open>
  What the supervisor adds for a run of failures that are each followed by a retry, the
  attempt counter standing at \<open>n\<close> before the first: the error, the reconnect message with
  the advanced counter, the sleep.
\<close>

fun retry_trace :: "nat option \<Rightarrow> int \<Rightarrow> int \<Rightarrow> real \<Rightarrow> exn list \<Rightarrow> effect list" where
  "retry_trace ecb n m delay [] = []"
| "retry_trace ecb n m delay (e # es) =
     reports ecb (ErrorInCaptureLoop e) @ reports ecb (AttemptingReconnect (n + 1) m)
       @ [Sleep delay] @ retry_trace ecb (n + 1) m delay es"



section \<open>Values used in the examples\<close>

text \<open>An \<open>AudioDevice\<close> with the given id, as the enumerator builds them.\<close>

definition example_device :: "int \<Rightarrow> AudioDevice" where
  "example_device i =
     \<lparr> dev_id = i, dev_name = ''device'', dev_channels = 2, dev_sample_rate = 44100,
       is_loopback = False, is_default = False \<rparr>"

text \<open>A session started on device 7 with chunk callback 0 and error callback 0.\<close>

definition started_engine :: "engine" where
  "started_engine = snd (start_capture 7 (UserCallback 0) (Some 0) (init_engine True))"

text \<open>
  A two-source session on devices 7 and 8 with the user's chunk callback 0: capture
  thread 1, secondary thread 2.
\<close>

definition two_source_engine :: "engine" where
  "two_source_engine =
     snd (start_multi_source_capture [7, 8] (UserCallback 0) (init_engine True))"

text \<open>An attempt that finds device 7 listed and fails to open the stream.\<close>

definition failing_attempt :: "attempt" where
  "failing_attempt =
     \<lparr> listed = [example_device 7], open_error = Some (BackendError ''unavailable''),
       reads = [] \<rparr>"

text \<open>An attempt that opens the stream on device 7 and is then stopped from outside.\<close>

definition good_attempt :: "attempt" where
  "good_attempt = \<lparr> listed = [example_device 7], open_error = None, reads = [StopSet] \<rparr>"

text \<open>An attempt at which the enumerator no longer lists device 7.\<close>

definition absent_attempt :: "attempt" where
  "absent_attempt = \<lparr> listed = [example_device 0], open_error = None, reads = [] \<rparr>"


text \<open>A recognizer that hears the same word in everything.\<close>

definition example_recognizer :: "recognizer" where
  "example_recognizer audio lang = Some (''hello'', ''en'', 9 / 10)"

section \<open>Properties\<close>

subsection \<open>Starting a capture\<close>

text \<open>
  C1 (as amended). \<open>start_capture\<close> never consults the enumerator. For a device id that
  the device list does not contain, on a session that is not capturing, it returns true,
  marks the session capturing on that id and starts one capture thread; on a session that
  is already capturing it returns false and changes nothing.
\<close>

theorem start_capture_ignores_device_list:
  "\<not> check_device_available devices device_id \<Longrightarrow>
   (\<not> is_capturing s \<longrightarrow>
      fst (start_capture device_id cb ecb s) = True \<and>
      is_capturing (snd (start_capture device_id cb ecb s)) \<and>
      current_device_id (snd (start_capture device_id cb ecb s)) = Some device_id \<and>
      capture_thread (snd (start_capture device_id cb ecb s)) = Some (next_tid s) \<and>
      trace (snd (start_capture device_id cb ecb s)) =
        trace s @ [ThreadStarted (next_tid s) CaptureLoopTarget]) \<and>
   (is_capturing s \<longrightarrow> start_capture device_id cb ecb s = (False, s))"
  by (simp add: start_capture_def emit_def Let_def)

text \<open>The amended claim at a concrete list without device 7.\<close>

theorem start_capture_ignores_device_list_witness:
  "\<not> check_device_available [example_device 0, example_device 1] 7 \<and>
   fst (start_capture 7 (UserCallback 0) None (init_engine True)) = True \<and>
   capture_thread (snd (start_capture 7 (UserCallback 0) None (init_engine True))) = Some 1 \<and>
   start_capture 7 (UserCallback 0) None ((init_engine True)\<lparr>is_capturing := True\<rparr>) =
     (False, (init_engine True)\<lparr>is_capturing := True\<rparr>)"
proof -
  have absent: "\<not> check_device_available [example_device 0, example_device 1] 7"
    by (simp add: check_device_available_def example_device_def)
  show ?thesis
    using absent
      start_capture_ignores_device_list [OF absent, of "init_engine True" "UserCallback 0" None]
      start_capture_ignores_device_list [OF absent,
        of "(init_engine True)\<lparr>is_capturing := True\<rparr>" "UserCallback 0" None]
    by (simp add: init_engine_def)
qed

text \<open>
  C1 as stated fails: device 7 is not in the list, yet \<open>start_capture\<close> returns true and
  the capture thread is started.
\<close>

theorem start_capture_absent_device_counterexample:
  "\<not> check_device_available [example_device 0, example_device 1] 7 \<and>
   \<not> is_capturing (init_engine True) \<and>
   fst (start_capture 7 (UserCallback 0) (Some 0) (init_engine True)) = True \<and>
   is_capturing (snd (start_capture 7 (UserCallback 0) (Some 0) (init_engine True))) \<and>
   trace (snd (start_capture 7 (UserCallback 0) (Some 0) (init_engine True))) =
     [ThreadStarted 1 CaptureLoopTarget]"
  by (simp add: check_device_available_def example_device_def start_capture_def emit_def
      init_engine_def Let_def)

subsection \<open>Voice-activity gating\<close>

text \<open>
  C5. With the level below the threshold and a silence start recorded more than 3 seconds
  before the clock reading, \<open>_should_pause_on_silence\<close> returns true and changes nothing.
  With the level at or above the threshold it returns false and clears the silence timer.
  While the level is below the threshold a recorded silence start is kept whatever the
  clock reads, so only a measurement at or above the threshold clears it.
\<close>

theorem should_pause_on_silence_spec:
  "(current_audio_level s < cfg_vad_threshold s \<and> silence_start_time s = Some t0 \<and> now - t0 > 3
      \<longrightarrow> should_pause_on_silence now s = (True, s)) \<and>
   (current_audio_level s \<ge> cfg_vad_threshold s
      \<longrightarrow> should_pause_on_silence now s = (False, s\<lparr>silence_start_time := None\<rparr>)) \<and>
   (current_audio_level s < cfg_vad_threshold s \<and> silence_start_time s = Some t0
      \<longrightarrow> silence_start_time (snd (should_pause_on_silence now s)) = Some t0) \<and>
   (silence_start_time s \<noteq> None \<and> silence_start_time (snd (should_pause_on_silence now s)) = None
      \<longrightarrow> current_audio_level s \<ge> cfg_vad_threshold s)"
  by (auto simp add: should_pause_on_silence_def Let_def split: option.split)

text \<open>C5 at the default threshold 0.01, with silence recorded at time 10.\<close>

theorem should_pause_on_silence_spec_witness:
  "should_pause_on_silence 14 ((init_engine True)\<lparr>silence_start_time := Some 10\<rparr>) =
     (True, (init_engine True)\<lparr>silence_start_time := Some 10\<rparr>) \<and>
   should_pause_on_silence 14
     ((init_engine True)\<lparr>current_audio_level := 1 / 2, silence_start_time := Some 10\<rparr>) =
     (False, (init_engine True)\<lparr>current_audio_level := 1 / 2, silence_start_time := None\<rparr>) \<and>
   silence_start_time (snd (should_pause_on_silence 1000000
     ((init_engine True)\<lparr>silence_start_time := Some 10\<rparr>))) = Some 10"
  using should_pause_on_silence_spec [of "(init_engine True)\<lparr>silence_start_time := Some 10\<rparr>" 10 14]
    should_pause_on_silence_spec
      [of "(init_engine True)\<lparr>current_audio_level := 1 / 2, silence_start_time := Some 10\<rparr>" 10 14]
    should_pause_on_silence_spec
      [of "(init_engine True)\<lparr>silence_start_time := Some 10\<rparr>" 10 1000000]
  by (simp add: init_engine_def)

subsection \<open>The two-source mixer\<close>

lemma mix_length: "length (mix p q) = min (length p) (length q)"
  by (simp add: mix_def Let_def)

lemma mix_nth:
  "i < min (length p) (length q) \<Longrightarrow> mix p q ! i = (p ! i + q ! i) / 2"
  by (simp add: mix_def Let_def)

lemma mix_replicate: "mix (replicate n a) (replicate m b) = replicate (min n m) ((a + b) / 2)"
  by (simp add: mix_def Let_def zip_replicate min_def)

text \<open>
  C6. When both queues are non-empty, \<open>_mix_and_callback\<close> removes the head of each
  queue and hands the callback their mix; when either is empty it does nothing. The
  primary callback appends the arriving chunk to the primary queue first, so with a
  waiting secondary chunk the oldest primary chunk is paired with the oldest secondary
  one, and with an empty secondary queue the chunk only waits. The mix has the shorter
  length and holds the sample-wise averages; two constant chunks give the constant
  \<open>(a + b) / 2\<close>.
\<close>

theorem mix_and_callback_fifo:
  "(primary_buffer s = p # ps \<and> secondary_buffer s = q # qs \<longrightarrow>
      mix_and_callback f s = f (mix p q) (s\<lparr>primary_buffer := ps, secondary_buffer := qs\<rparr>)) \<and>
   (primary_buffer s = [] \<or> secondary_buffer s = [] \<longrightarrow> mix_and_callback f s = s) \<and>
   (primary_buffer s @ [c] = p # ps \<and> secondary_buffer s = q # qs \<longrightarrow>
      invoke (PrimaryCallback cb) c s =
        invoke cb (mix p q) (s\<lparr>primary_buffer := ps, secondary_buffer := qs\<rparr>)) \<and>
   (secondary_buffer s = [] \<longrightarrow>
      invoke (PrimaryCallback cb) c s = s\<lparr>primary_buffer := primary_buffer s @ [c]\<rparr>) \<and>
   invoke (UserCallback k) c s = s\<lparr>trace := trace s @ [ChunkDelivered k c]\<rparr> \<and>
   length (mix p q) = min (length p) (length q) \<and>
   (\<forall>i < min (length p) (length q). mix p q ! i = (p ! i + q ! i) / 2) \<and>
   mix (replicate n a) (replicate m b) = replicate (min n m) ((a + b) / 2)"
  by (auto simp add: mix_and_callback_def mix_length mix_nth mix_replicate emit_def
      split: list.split)

text \<open>C6 on queues of two chunks each, and on an empty secondary queue.\<close>

theorem mix_and_callback_fifo_witness:
  "mix_and_callback (invoke (UserCallback 0))
     ((init_engine True)\<lparr>primary_buffer := [[1 / 10, 1 / 10], [7]],
                          secondary_buffer := [[1 / 2, 1 / 2, 1 / 2], [9]]\<rparr>) =
     invoke (UserCallback 0) (mix [1 / 10, 1 / 10] [1 / 2, 1 / 2, 1 / 2])
       ((init_engine True)\<lparr>primary_buffer := [[7]], secondary_buffer := [[9]]\<rparr>) \<and>
   mix_and_callback (invoke (UserCallback 0))
     ((init_engine True)\<lparr>primary_buffer := [[1 / 10, 1 / 10]]\<rparr>) =
     (init_engine True)\<lparr>primary_buffer := [[1 / 10, 1 / 10]]\<rparr> \<and>
   invoke (PrimaryCallback (UserCallback 0)) [7]
     ((init_engine True)\<lparr>primary_buffer := [[1 / 10, 1 / 10]],
                          secondary_buffer := [[1 / 2, 1 / 2, 1 / 2], [9]]\<rparr>) =
     invoke (UserCallback 0) (mix [1 / 10, 1 / 10] [1 / 2, 1 / 2, 1 / 2])
       ((init_engine True)\<lparr>primary_buffer := [[7]], secondary_buffer := [[9]]\<rparr>) \<and>
   invoke (PrimaryCallback (UserCallback 0)) [7] (init_engine True) =
     (init_engine True)\<lparr>primary_buffer := [[7]]\<rparr> \<and>
   mix [1 / 10, 1 / 10] [1 / 2, 1 / 2, 1 / 2] ! 1 = (3 / 10 :: real) \<and>
   mix (replicate 2 (1 / 10)) (replicate 3 (1 / 2)) = replicate 2 (3 / 10)"
proof -
  let ?both = "(init_engine True)\<lparr>primary_buffer := [[1 / 10, 1 / 10], [7]],
                                  secondary_buffer := [[1 / 2, 1 / 2, 1 / 2], [9]]\<rparr>"
  let ?lone = "(init_engine True)\<lparr>primary_buffer := [[1 / 10, 1 / 10]]\<rparr>"
  let ?wait = "(init_engine True)\<lparr>primary_buffer := [[1 / 10, 1 / 10]],
                                  secondary_buffer := [[1 / 2, 1 / 2, 1 / 2], [9]]\<rparr>"
  have a: "mix_and_callback (invoke (UserCallback 0)) ?both =
      invoke (UserCallback 0) (mix [1 / 10, 1 / 10] [1 / 2, 1 / 2, 1 / 2])
        ((init_engine True)\<lparr>primary_buffer := [[7]], secondary_buffer := [[9]]\<rparr>)"
    using mix_and_callback_fifo [where s = ?both and p = "[1 / 10, 1 / 10]" and ps = "[[7]]"
        and q = "[1 / 2, 1 / 2, 1 / 2]" and qs = "[[9]]" and f = "invoke (UserCallback 0)",
        THEN conjunct1]
    by simp
  have b: "mix_and_callback (invoke (UserCallback 0)) ?lone = ?lone"
    using mix_and_callback_fifo [where s = ?lone and f = "invoke (UserCallback 0)",
        THEN conjunct2, THEN conjunct1]
    by (simp add: init_engine_def)
  have c: "invoke (PrimaryCallback (UserCallback 0)) [7] ?wait =
      invoke (UserCallback 0) (mix [1 / 10, 1 / 10] [1 / 2, 1 / 2, 1 / 2])
        ((init_engine True)\<lparr>primary_buffer := [[7]], secondary_buffer := [[9]]\<rparr>)"
    using mix_and_callback_fifo [where s = ?wait and p = "[1 / 10, 1 / 10]" and ps = "[[7]]"
        and q = "[1 / 2, 1 / 2, 1 / 2]" and qs = "[[9]]" and c = "[7]" and cb = "UserCallback 0",
        THEN conjunct2, THEN conjunct2, THEN conjunct1]
    by simp
  have d: "invoke (PrimaryCallback (UserCallback 0)) [7] (init_engine True) =
      (init_engine True)\<lparr>primary_buffer := [[7]]\<rparr>"
    using mix_and_callback_fifo [where s = "init_engine True" and c = "[7]"
        and cb = "UserCallback 0", THEN conjunct2, THEN conjunct2, THEN conjunct2, THEN conjunct1]
    by (simp add: init_engine_def)
  have e: "mix [1 / 10, 1 / 10] [1 / 2, 1 / 2, 1 / 2] ! 1 = (3 / 10 :: real)"
    using mix_and_callback_fifo [where p = "[1 / 10, 1 / 10]" and q = "[1 / 2, 1 / 2, 1 / 2]",
        THEN conjunct2, THEN conjunct2, THEN conjunct2, THEN conjunct2, THEN conjunct2,
        THEN conjunct2, THEN conjunct1, rule_format, of 1]
    by simp
  have f: "mix (replicate 2 (1 / 10)) (replicate 3 (1 / 2)) = replicate 2 (3 / 10 :: real)"
    using mix_and_callback_fifo [where n = 2 and a = "1 / 10" and m = 3 and b = "1 / 2",
        THEN conjunct2, THEN conjunct2, THEN conjunct2, THEN conjunct2, THEN conjunct2,
        THEN conjunct2, THEN conjunct2]
    by simp
  show ?thesis using a b c d e f by blast
qed

subsection \<open>Starting a two-source capture\<close>

text \<open>
  C7 (as amended). With an empty list \<open>start_multi_source_capture\<close> returns false and
  changes nothing; with one id it is \<open>start_capture\<close> on that id (with no error callback).
  With two or more ids, on a session that is not capturing, it returns true and starts a
  primary capture thread on the first id and a secondary one on the second; on a session
  that is already capturing it returns false and changes nothing.
\<close>

theorem start_multi_source_capture_cases:
  "start_multi_source_capture [] cb s = (False, s) \<and>
   start_multi_source_capture [d] cb s = start_capture d cb None s \<and>
   (is_capturing s \<longrightarrow> start_multi_source_capture (p # q # rest) cb s = (False, s)) \<and>
   (\<not> is_capturing s \<longrightarrow>
      fst (start_multi_source_capture (p # q # rest) cb s) = True \<and>
      is_capturing (snd (start_multi_source_capture (p # q # rest) cb s)) \<and>
      current_device_id (snd (start_multi_source_capture (p # q # rest) cb s)) = Some p \<and>
      secondary_device_id (snd (start_multi_source_capture (p # q # rest) cb s)) = Some q \<and>
      callback (snd (start_multi_source_capture (p # q # rest) cb s)) =
        Some (PrimaryCallback cb) \<and>
      capture_thread (snd (start_multi_source_capture (p # q # rest) cb s)) =
        Some (next_tid s) \<and>
      secondary_thread (snd (start_multi_source_capture (p # q # rest) cb s)) =
        Some (Suc (next_tid s)) \<and>
      trace (snd (start_multi_source_capture (p # q # rest) cb s)) =
        trace s @ [ThreadStarted (next_tid s) CaptureLoopTarget,
                   ThreadStarted (Suc (next_tid s)) (SecondaryCaptureLoopTarget q)])"
  by (simp add: start_multi_source_capture_def emit_def Let_def)

text \<open>The amended claim at the ids 3 and 4, on a busy and on a fresh engine.\<close>

theorem start_multi_source_capture_cases_witness:
  "start_multi_source_capture [3, 4] (UserCallback 0) ((init_engine True)\<lparr>is_capturing := True\<rparr>) =
     (False, (init_engine True)\<lparr>is_capturing := True\<rparr>) \<and>
   fst (start_multi_source_capture [3, 4] (UserCallback 0) (init_engine True)) = True \<and>
   trace (snd (start_multi_source_capture [3, 4] (UserCallback 0) (init_engine True))) =
     [ThreadStarted 1 CaptureLoopTarget, ThreadStarted 2 (SecondaryCaptureLoopTarget 4)]"
  using
    start_multi_source_capture_cases
      [of "UserCallback 0" "(init_engine True)\<lparr>is_capturing := True\<rparr>" 0 3 4 "[]"]
    start_multi_source_capture_cases [of "UserCallback 0" "init_engine True" 0 3 4 "[]"]
  by (simp add: init_engine_def)

text \<open>
  C7 as stated fails: given two ids while a capture is running, nothing is started and
  the call returns false.
\<close>

theorem start_multi_source_capture_busy_counterexample:
  "is_capturing (snd (start_capture 0 (UserCallback 0) None (init_engine True))) \<and>
   start_multi_source_capture [3, 4] (UserCallback 0)
     (snd (start_capture 0 (UserCallback 0) None (init_engine True))) =
     (False, snd (start_capture 0 (UserCallback 0) None (init_engine True)))"
  by (simp add: start_multi_source_capture_def start_capture_def emit_def Let_def init_engine_def)

subsection \<open>Stopping\<close>

lemma stop_capture_idle: "\<not> is_capturing s \<Longrightarrow> stop_capture me s = (None, s)"
  by (simp add: stop_capture_def)

lemma stop_capture_outside:
  assumes "is_capturing s" "capture_thread s \<noteq> Some me" "secondary_thread s \<noteq> Some me"
  shows "stop_capture me s =
    (None,
     s\<lparr>stop_event := True,
       secondary_stop_event := (secondary_device_id s \<noteq> None \<or> secondary_stop_event s),
       secondary_device_id := None,
       secondary_thread := (if secondary_device_id s \<noteq> None then None else secondary_thread s),
       is_capturing := False, callback := None, current_device_id := None,
       is_paused := False, silence_start_time := None, primary_buffer := [],
       secondary_buffer := [],
       trace := trace s
         @ (if secondary_device_id s \<noteq> None
            then (case secondary_thread s of None \<Rightarrow> [] | Some t \<Rightarrow> [Joined t 2]) else [])
         @ (case capture_thread s of None \<Rightarrow> [] | Some t \<Rightarrow> [Joined t 2])\<rparr>)"
  using assms
  by (cases "capture_thread s"; cases "secondary_thread s"; cases "secondary_device_id s")
     (simp_all add: stop_capture_def stop_secondary_def and_then_def join_if_set_def join_def
        emit_def)

lemma stop_capture_inside:
  assumes "is_capturing s" "capture_thread s = Some me"
    "secondary_device_id s = None \<or> secondary_thread s \<noteq> Some me"
  shows "stop_capture me s =
    (Some CannotJoinCurrentThread,
     s\<lparr>stop_event := True,
       secondary_stop_event := (secondary_device_id s \<noteq> None \<or> secondary_stop_event s),
       secondary_device_id := None,
       secondary_thread := (if secondary_device_id s \<noteq> None then None else secondary_thread s),
       trace := trace s
         @ (if secondary_device_id s \<noteq> None
            then (case secondary_thread s of None \<Rightarrow> [] | Some t \<Rightarrow> [Joined t 2]) else [])\<rparr>)"
  using assms
  by (cases "secondary_thread s"; cases "secondary_device_id s")
     (simp_all add: stop_capture_def stop_secondary_def and_then_def join_if_set_def join_def
        emit_def)

lemma stop_capture_from_secondary:
  assumes "is_capturing s" "secondary_device_id s \<noteq> None" "secondary_thread s = Some me"
  shows "stop_capture me s =
    (Some CannotJoinCurrentThread, s\<lparr>stop_event := True, secondary_stop_event := True\<rparr>)"
  using assms
  by (simp add: stop_capture_def stop_secondary_def and_then_def join_if_set_def join_def)

text \<open>
  C9. \<open>stop_capture\<close> on a session that is not capturing changes nothing. On a capturing
  session, called by a thread other than the ones it joins, it sets the stop flag, joins
  the secondary thread (when there is one) and then the capture thread, each with a
  timeout of 2 seconds, and leaves the session not capturing, with no device id, not
  paused, with the silence timer cleared, the chunk callback dropped and both queues
  empty. Called by the capture thread itself, which is what the capture thread does through
  \<open>handle_device_disconnection\<close>, it sets the stop flag, stops the secondary source when
  there is one, and then raises at the join of the capture thread: the capture thread is
  not joined, and the session stays capturing, with its device id, paused flag, silence
  timer and chunk callback as they were. Called by the secondary thread it raises at the
  first join, with only the two stop flags set.
\<close>

theorem stop_capture_spec:
  "(\<not> is_capturing s \<longrightarrow> stop_capture me s = (None, s)) \<and>
   (is_capturing s \<and> capture_thread s = Some t \<and> t \<noteq> me \<and> secondary_thread s \<noteq> Some me \<longrightarrow>
      fst (stop_capture me s) = None \<and>
      stop_event (snd (stop_capture me s)) \<and>
      \<not> is_capturing (snd (stop_capture me s)) \<and>
      current_device_id (snd (stop_capture me s)) = None \<and>
      \<not> is_paused (snd (stop_capture me s)) \<and>
      silence_start_time (snd (stop_capture me s)) = None \<and>
      callback (snd (stop_capture me s)) = None \<and>
      primary_buffer (snd (stop_capture me s)) = [] \<and>
      secondary_buffer (snd (stop_capture me s)) = [] \<and>
      trace (snd (stop_capture me s)) =
        trace s
        @ (if secondary_device_id s \<noteq> None
           then (case secondary_thread s of None \<Rightarrow> [] | Some t' \<Rightarrow> [Joined t' 2]) else [])
        @ [Joined t 2]) \<and>
   (is_capturing s \<and> capture_thread s = Some me \<and>
    (secondary_device_id s = None \<or> secondary_thread s \<noteq> Some me) \<longrightarrow>
      fst (stop_capture me s) = Some CannotJoinCurrentThread \<and>
      stop_event (snd (stop_capture me s)) \<and>
      is_capturing (snd (stop_capture me s)) \<and>
      current_device_id (snd (stop_capture me s)) = current_device_id s \<and>
      is_paused (snd (stop_capture me s)) = is_paused s \<and>
      silence_start_time (snd (stop_capture me s)) = silence_start_time s \<and>
      callback (snd (stop_capture me s)) = callback s \<and>
      primary_buffer (snd (stop_capture me s)) = primary_buffer s \<and>
      secondary_buffer (snd (stop_capture me s)) = secondary_buffer s \<and>
      trace (snd (stop_capture me s)) =
        trace s
        @ (if secondary_device_id s \<noteq> None
           then (case secondary_thread s of None \<Rightarrow> [] | Some t' \<Rightarrow> [Joined t' 2]) else [])) \<and>
   (is_capturing s \<and> secondary_device_id s \<noteq> None \<and> secondary_thread s = Some me \<longrightarrow>
      stop_capture me s =
        (Some CannotJoinCurrentThread, s\<lparr>stop_event := True, secondary_stop_event := True\<rparr>))"
proof (intro conjI impI)
  assume "\<not> is_capturing s"
  then show "stop_capture me s = (None, s)" by (rule stop_capture_idle)
next
  assume a: "is_capturing s \<and> capture_thread s = Some t \<and> t \<noteq> me \<and> secondary_thread s \<noteq> Some me"
  then have eq: "stop_capture me s =
    (None,
     s\<lparr>stop_event := True,
       secondary_stop_event := (secondary_device_id s \<noteq> None \<or> secondary_stop_event s),
       secondary_device_id := None,
       secondary_thread := (if secondary_device_id s \<noteq> None then None else secondary_thread s),
       is_capturing := False, callback := None, current_device_id := None,
       is_paused := False, silence_start_time := None, primary_buffer := [],
       secondary_buffer := [],
       trace := trace s
         @ (if secondary_device_id s \<noteq> None
            then (case secondary_thread s of None \<Rightarrow> [] | Some t \<Rightarrow> [Joined t 2]) else [])
         @ (case capture_thread s of None \<Rightarrow> [] | Some t \<Rightarrow> [Joined t 2])\<rparr>)"
    by (intro stop_capture_outside) simp_all
  show "fst (stop_capture me s) = None" by (simp add: eq)
  show "stop_event (snd (stop_capture me s))" by (simp add: eq)
  show "\<not> is_capturing (snd (stop_capture me s))" by (simp add: eq)
  show "current_device_id (snd (stop_capture me s)) = None" by (simp add: eq)
  show "\<not> is_paused (snd (stop_capture me s))" by (simp add: eq)
  show "silence_start_time (snd (stop_capture me s)) = None" by (simp add: eq)
  show "callback (snd (stop_capture me s)) = None" by (simp add: eq)
  show "primary_buffer (snd (stop_capture me s)) = []" by (simp add: eq)
  show "secondary_buffer (snd (stop_capture me s)) = []" by (simp add: eq)
  show "trace (snd (stop_capture me s)) =
        trace s
        @ (if secondary_device_id s \<noteq> None
           then (case secondary_thread s of None \<Rightarrow> [] | Some t' \<Rightarrow> [Joined t' 2]) else [])
        @ [Joined t 2]"
    using a by (simp add: eq)
next
  assume a: "is_capturing s \<and> capture_thread s = Some me \<and>
    (secondary_device_id s = None \<or> secondary_thread s \<noteq> Some me)"
  then have eq: "stop_capture me s =
    (Some CannotJoinCurrentThread,
     s\<lparr>stop_event := True,
       secondary_stop_event := (secondary_device_id s \<noteq> None \<or> secondary_stop_event s),
       secondary_device_id := None,
       secondary_thread := (if secondary_device_id s \<noteq> None then None else secondary_thread s),
       trace := trace s
         @ (if secondary_device_id s \<noteq> None
            then (case secondary_thread s of None \<Rightarrow> [] | Some t \<Rightarrow> [Joined t 2]) else [])\<rparr>)"
    by (intro stop_capture_inside) simp_all
  show "fst (stop_capture me s) = Some CannotJoinCurrentThread" by (simp add: eq)
  show "stop_event (snd (stop_capture me s))" by (simp add: eq)
  show "is_capturing (snd (stop_capture me s))" using a by (simp add: eq)
  show "current_device_id (snd (stop_capture me s)) = current_device_id s" by (simp add: eq)
  show "is_paused (snd (stop_capture me s)) = is_paused s" by (simp add: eq)
  show "silence_start_time (snd (stop_capture me s)) = silence_start_time s" by (simp add: eq)
  show "callback (snd (stop_capture me s)) = callback s" by (simp add: eq)
  show "primary_buffer (snd (stop_capture me s)) = primary_buffer s" by (simp add: eq)
  show "secondary_buffer (snd (stop_capture me s)) = secondary_buffer s" by (simp add: eq)
  show "trace (snd (stop_capture me s)) =
        trace s
        @ (if secondary_device_id s \<noteq> None
           then (case secondary_thread s of None \<Rightarrow> [] | Some t' \<Rightarrow> [Joined t' 2]) else [])"
    by (simp add: eq)
next
  assume "is_capturing s \<and> secondary_device_id s \<noteq> None \<and> secondary_thread s = Some me"
  then show "stop_capture me s =
      (Some CannotJoinCurrentThread, s\<lparr>stop_event := True, secondary_stop_event := True\<rparr>)"
    by (intro stop_capture_from_secondary) simp_all
qed

text \<open>
  C9 on a fresh engine, on the started session called from the main thread, on the started
  session called from its own capture thread (thread 1), and on a two-source session
  called from its secondary thread (thread 2).
\<close>

theorem stop_capture_spec_witness:
  "stop_capture 0 (init_engine True) = (None, init_engine True) \<and>
   fst (stop_capture 0 started_engine) = None \<and>
   stop_event (snd (stop_capture 0 started_engine)) \<and>
   \<not> is_capturing (snd (stop_capture 0 started_engine)) \<and>
   current_device_id (snd (stop_capture 0 started_engine)) = None \<and>
   trace (snd (stop_capture 0 started_engine)) = [ThreadStarted 1 CaptureLoopTarget, Joined 1 2] \<and>
   fst (stop_capture 1 started_engine) = Some CannotJoinCurrentThread \<and>
   stop_event (snd (stop_capture 1 started_engine)) \<and>
   is_capturing (snd (stop_capture 1 started_engine)) \<and>
   current_device_id (snd (stop_capture 1 started_engine)) = Some 7 \<and>
   trace (snd (stop_capture 1 started_engine)) = [ThreadStarted 1 CaptureLoopTarget] \<and>
   fst (stop_capture 2 two_source_engine) = Some CannotJoinCurrentThread \<and>
   is_capturing (snd (stop_capture 2 two_source_engine))"
proof -
  have idle: "\<not> is_capturing (init_engine True)"
    by (simp add: init_engine_def)
  have busy: "is_capturing started_engine \<and> capture_thread started_engine = Some 1 \<and>
      (1::nat) \<noteq> 0 \<and> secondary_thread started_engine \<noteq> Some 0 \<and>
      secondary_device_id started_engine = None \<and>
      current_device_id started_engine = Some 7 \<and>
      trace started_engine = [ThreadStarted 1 CaptureLoopTarget]"
    by (simp add: started_engine_def start_capture_def emit_def init_engine_def Let_def)
  have two: "is_capturing two_source_engine \<and> secondary_device_id two_source_engine \<noteq> None \<and>
      secondary_thread two_source_engine = Some 2"
    by (simp add: two_source_engine_def start_multi_source_capture_def emit_def init_engine_def
          Let_def)
  note outside = stop_capture_spec [where s = started_engine and me = 0 and t = 1,
      THEN conjunct2, THEN conjunct1]
  note inside = stop_capture_spec [where s = started_engine and me = 1,
      THEN conjunct2, THEN conjunct2, THEN conjunct1]
  note secondary = stop_capture_spec [where s = two_source_engine and me = 2,
      THEN conjunct2, THEN conjunct2, THEN conjunct2]
  have a: "stop_capture 0 (init_engine True) = (None, init_engine True)"
    using idle stop_capture_spec [where s = "init_engine True" and me = 0] by blast
  have b: "fst (stop_capture 0 started_engine) = None \<and>
     stop_event (snd (stop_capture 0 started_engine)) \<and>
     \<not> is_capturing (snd (stop_capture 0 started_engine)) \<and>
     current_device_id (snd (stop_capture 0 started_engine)) = None \<and>
     trace (snd (stop_capture 0 started_engine)) = [ThreadStarted 1 CaptureLoopTarget, Joined 1 2]"
    using busy outside by simp
  have c: "fst (stop_capture 1 started_engine) = Some CannotJoinCurrentThread \<and>
     stop_event (snd (stop_capture 1 started_engine)) \<and>
     is_capturing (snd (stop_capture 1 started_engine)) \<and>
     current_device_id (snd (stop_capture 1 started_engine)) = Some 7 \<and>
     trace (snd (stop_capture 1 started_engine)) = [ThreadStarted 1 CaptureLoopTarget]"
    using busy inside by simp
  have d: "fst (stop_capture 2 two_source_engine) = Some CannotJoinCurrentThread \<and>
     is_capturing (snd (stop_capture 2 two_source_engine))"
    using two secondary by simp
  show ?thesis using a b c d by blast
qed

subsection \<open>Switching the device\<close>

lemma set_device_outside:
  assumes "is_capturing s" "callback s = Some cb" "capture_thread s \<noteq> Some me"
    "secondary_thread s \<noteq> Some me"
  shows "set_device me d s = (None, snd (start_capture d cb None (snd (stop_capture me s))))"
    and "fst (stop_capture me s) = None"
    and "\<not> is_capturing (snd (stop_capture me s))"
    and "next_tid (snd (stop_capture me s)) = next_tid s"
    and "error_callback (snd (stop_capture me s)) = error_callback s"
  using assms by (simp_all add: set_device_def Let_def and_then_def stop_capture_outside)

subsection \<open>What the capture thread leaves untouched\<close>

text \<open>
  Nothing that runs on the capture thread assigns \<open>error_callback\<close> or, apart from the
  supervisor itself and a successful open, \<open>reconnect_attempts\<close>; with no error
  callback registered, no message is reported.
\<close>

lemma error_reports_append [simp]: "error_reports (xs @ ys) = error_reports xs @ error_reports ys"
  by (induction xs rule: error_reports.induct) simp_all

lemma emit_fields [simp]:
  "error_callback (emit e s) = error_callback s"
  "reconnect_attempts (emit e s) = reconnect_attempts s"
  "trace (emit e s) = trace s @ [e]"
  "stop_event (emit e s) = stop_event s"
  by (simp_all add: emit_def)

lemma invoke_keeps:
  "error_callback (invoke cb a s) = error_callback s \<and>
   reconnect_attempts (invoke cb a s) = reconnect_attempts s \<and>
   error_reports (trace (invoke cb a s)) = error_reports (trace s)"
  by (induction cb arbitrary: a s) (simp_all add: mix_and_callback_def split: list.split)

lemma should_pause_keeps:
  "error_callback (snd (should_pause_on_silence now s)) = error_callback s \<and>
   reconnect_attempts (snd (should_pause_on_silence now s)) = reconnect_attempts s \<and>
   trace (snd (should_pause_on_silence now s)) = trace s \<and>
   callback (snd (should_pause_on_silence now s)) = callback s"
  by (simp add: should_pause_on_silence_def Let_def split: option.split)

lemma update_level_keeps:
  "error_callback (update_audio_level a s) = error_callback s \<and>
   reconnect_attempts (update_audio_level a s) = reconnect_attempts s \<and>
   trace (update_audio_level a s) = trace s"
  by (simp add: update_audio_level_def Let_def)

lemma process_chunk_keeps:
  "error_callback (process_chunk a now s) = error_callback s \<and>
   reconnect_attempts (process_chunk a now s) = reconnect_attempts s \<and>
   error_reports (trace (process_chunk a now s)) = error_reports (trace s)"
  by (simp add: process_chunk_def Let_def invoke_keeps should_pause_keeps update_level_keeps
      split: option.split)

lemma join_if_set_keeps:
  "error_callback (snd (join_if_set me th s)) = error_callback s \<and>
   reconnect_attempts (snd (join_if_set me th s)) = reconnect_attempts s \<and>
   error_reports (trace (snd (join_if_set me th s))) = error_reports (trace s)"
  by (simp add: join_if_set_def join_def split: option.split)

lemma stop_capture_keeps:
  "error_callback (snd (stop_capture me s)) = error_callback s \<and>
   reconnect_attempts (snd (stop_capture me s)) = reconnect_attempts s \<and>
   error_reports (trace (snd (stop_capture me s))) = error_reports (trace s)"
  by (simp add: stop_capture_def stop_secondary_def and_then_def join_if_set_def join_def
      split: option.split prod.split)


lemma report_fields [simp]:
  "error_callback (report m s) = error_callback s"
  "reconnect_attempts (report m s) = reconnect_attempts s"
  "stop_event (report m s) = stop_event s"
  "is_capturing (report m s) = is_capturing s"
  by (simp_all add: report_def emit_def split: option.split)

lemma report_silent: "error_callback s = None \<Longrightarrow> report m s = s"
  by (simp add: report_def)

lemma and_then_snd:
  "snd (and_then r f) = (case fst r of Some e \<Rightarrow> snd r | None \<Rightarrow> snd (f (snd r)))"
  by (cases r) (simp add: and_then_def split: option.split)

lemma handle_keeps:
  "error_callback (snd (handle_device_disconnection me s)) = error_callback s \<and>
   reconnect_attempts (snd (handle_device_disconnection me s)) = reconnect_attempts s"
  by (simp add: handle_device_disconnection_def Let_def and_then_snd stop_capture_keeps
      split: option.split)

lemma handle_silent:
  "error_callback s = None \<Longrightarrow>
   error_reports (trace (snd (handle_device_disconnection me s))) = error_reports (trace s)"
  by (simp add: handle_device_disconnection_def Let_def and_then_snd stop_capture_keeps
      report_silent split: option.split)

lemma read_loop_keeps:
  "error_callback (snd (read_loop me evs n s)) = error_callback s \<and>
   reconnect_attempts (snd (read_loop me evs n s)) = reconnect_attempts s"
proof (induction evs arbitrary: n s)
  case Nil
  show ?case by simp
next
  case (Cons ev evs)
  show ?case
  proof (cases ev)
    case (Samples a now)
    then show ?thesis
      by (cases "to_mono s a") (simp_all add: Cons.IH process_chunk_keeps)
  next
    case (ReadOSError msg)
    then show ?thesis
      using handle_keeps [of me s]
      by (cases "handle_device_disconnection me s") (auto simp: Cons.IH split: option.split)
  next
    case (ReadError msg)
    then show ?thesis by (simp add: Cons.IH)
  next
    case StopSet
    then show ?thesis by (simp add: Cons.IH)
  qed
qed

lemma read_loop_silent:
  "error_callback s = None \<Longrightarrow>
   error_reports (trace (snd (read_loop me evs n s))) = error_reports (trace s)"
proof (induction evs arbitrary: n s)
  case Nil
  show ?case by simp
next
  case (Cons ev evs)
  show ?case
  proof (cases ev)
    case (Samples a now)
    then show ?thesis using Cons.prems
      by (cases "to_mono s a") (simp_all add: Cons.IH process_chunk_keeps)
  next
    case (ReadOSError msg)
    then show ?thesis
      using handle_silent [of s me] Cons.prems
      by (cases "handle_device_disconnection me s") (auto simp: Cons.IH split: option.split)
  next
    case (ReadError msg)
    then show ?thesis using Cons.prems by (simp add: Cons.IH)
  next
    case StopSet
    then show ?thesis using Cons.prems by (simp add: Cons.IH)
  qed
qed

lemma capture_loop_windows_keeps:
  "error_callback (snd (capture_loop_windows me a s)) = error_callback s"
  using handle_keeps [of me s]
  by (cases "handle_device_disconnection me s")
     (auto simp: capture_loop_windows_def Let_def read_loop_keeps split: option.split)

lemma capture_loop_windows_silent:
  "error_callback s = None \<Longrightarrow>
   error_reports (trace (snd (capture_loop_windows me a s))) = error_reports (trace s)"
  using handle_silent [of s me]
  by (cases "handle_device_disconnection me s")
     (auto simp: capture_loop_windows_def Let_def read_loop_silent report_silent
        split: option.split)

lemma capture_loop_silent:
  "error_callback s = None \<Longrightarrow>
   error_reports (trace (snd (snd (capture_loop me as s)))) = error_reports (trace s)"
proof (induction as arbitrary: s)
  case Nil
  show ?case by simp
next
  case (Cons a as)
  obtain c s1 where w: "capture_loop_windows me a s = (c, s1)"
    by (cases "capture_loop_windows me a s")
  have e1: "error_callback s1 = None"
    using capture_loop_windows_keeps [of me a s] w Cons.prems by simp
  have t1: "error_reports (trace s1) = error_reports (trace s)"
    using capture_loop_windows_silent [OF Cons.prems, of me a] w by simp
  show ?case
  proof (cases c)
    case Returned
    then show ?thesis using w t1 by simp
  next
    case Unfinished
    then show ?thesis using w t1 by simp
  next
    case (Raised e)
    then show ?thesis using w t1 e1
      by (simp add: Let_def report_silent Cons.IH)
  qed
qed

subsection \<open>The error callback after a device switch\<close>

text \<open>
  C10. \<open>set_device\<close> on a capturing session (with a chunk callback registered, called by
  a thread other than the ones it joins) restarts the capture with the saved chunk
  callback only: afterwards \<open>error_callback\<close> is unset, whatever it was before, and
  whatever the capture thread then meets, it reports no further message.
\<close>

theorem set_device_drops_error_callback:
  "is_capturing s \<and> callback s = Some cb \<and> capture_thread s \<noteq> Some me \<and>
   secondary_thread s \<noteq> Some me \<longrightarrow>
     fst (set_device me d s) = None \<and>
     is_capturing (snd (set_device me d s)) \<and>
     callback (snd (set_device me d s)) = Some cb \<and>
     error_callback (snd (set_device me d s)) = None \<and>
     error_reports (trace (snd (snd (capture_loop t script (snd (set_device me d s)))))) =
       error_reports (trace s)"
proof
  assume a: "is_capturing s \<and> callback s = Some cb \<and> capture_thread s \<noteq> Some me \<and>
    secondary_thread s \<noteq> Some me"
  then have c: "is_capturing s" "callback s = Some cb" "capture_thread s \<noteq> Some me"
    "secondary_thread s \<noteq> Some me" by simp_all
  note sd = set_device_outside [OF c]
  let ?s' = "snd (set_device me d s)"
  have e: "error_callback ?s' = None"
    using sd(3) by (simp add: sd(1) start_capture_def Let_def emit_def)
  have tr: "error_reports (trace ?s') = error_reports (trace s)"
    using sd(3) stop_capture_keeps [of me s]
    by (simp add: sd(1) start_capture_def Let_def emit_def)
  have cap: "is_capturing ?s'" "callback ?s' = Some cb"
    using sd(3) by (simp_all add: sd(1) start_capture_def Let_def emit_def)
  show "fst (set_device me d s) = None \<and> is_capturing ?s' \<and> callback ?s' = Some cb \<and>
      error_callback ?s' = None \<and>
      error_reports (trace (snd (snd (capture_loop t script ?s')))) = error_reports (trace s)"
    using e tr cap capture_loop_silent [OF e, of t script] by (simp add: sd(1))
qed

text \<open>
  C10 on the started session, which had error callback 0: after the switch to device 3
  the new capture thread runs against a script that lists device 7 only, so it finds its
  device missing at the first attempt; what follows is reported to nobody.
\<close>

theorem set_device_drops_error_callback_witness:
  "error_callback started_engine = Some 0 \<and>
   error_callback (snd (set_device 0 3 started_engine)) = None \<and>
   callback (snd (set_device 0 3 started_engine)) = Some (UserCallback 0) \<and>
   error_reports (trace (snd (snd (capture_loop 2 (replicate 6 failing_attempt)
     (snd (set_device 0 3 started_engine)))))) = []"
proof -
  have busy: "is_capturing started_engine \<and> callback started_engine = Some (UserCallback 0) \<and>
      capture_thread started_engine \<noteq> Some 0 \<and> secondary_thread started_engine \<noteq> Some 0"
    "error_callback started_engine = Some 0"
    "error_reports (trace started_engine) = []"
    by (simp_all add: started_engine_def start_capture_def emit_def init_engine_def Let_def)
  show ?thesis
    using busy
      set_device_drops_error_callback [where s = started_engine and cb = "UserCallback 0"
        and me = 0 and d = 3 and t = 2 and script = "replicate 6 failing_attempt"]
    by auto
qed

subsection \<open>The reconnection budget\<close>

text \<open>
  One failed attempt to open the stream, seen from the supervisor: while the counter is
  below the maximum it records the error, advances the counter, announces the reconnect,
  sleeps and goes round again; once the counter has reached the maximum it records the
  error, announces the end and leaves the session not capturing.
\<close>

lemma trace_report: "trace (report m s) = trace s @ reports (error_callback s) m"
  by (simp add: report_def reports_def emit_def split: option.split)




lemma retry_trace_append:
  "retry_trace ecb n m delay (es @ es') =
     retry_trace ecb n m delay es @ retry_trace ecb (n + int (length es)) m delay es'"
  by (induction es arbitrary: n) (simp_all add: algebra_simps)





text \<open>The started session and the failing attempt, field by field.\<close>

lemmas example_defs =
  started_engine_def failing_attempt_def good_attempt_def absent_attempt_def example_device_def
  init_engine_def start_capture_def emit_def

lemma started_engine_fields:
  "pyaudio_instance started_engine" "\<not> stop_event started_engine"
  "current_device_id started_engine = Some 7" "reconnect_attempts started_engine = 0"
  "max_reconnect_attempts started_engine = 5" "is_capturing started_engine"
  "capture_thread started_engine = Some 1" "secondary_device_id started_engine = None"
  "error_callback started_engine = Some 0" "reconnect_delay started_engine = 5"
  "trace started_engine = [ThreadStarted 1 CaptureLoopTarget]"
  by (simp_all add: example_defs)




subsection \<open>Chunks after a device switch\<close>



lemma update_level_fields [simp]:
  "cfg_sample_rate (update_audio_level a s) = cfg_sample_rate s"
  "cfg_chunk_duration (update_audio_level a s) = cfg_chunk_duration s"
  "cfg_vad_threshold (update_audio_level a s) = cfg_vad_threshold s"
  "callback (update_audio_level a s) = callback s"
  "is_paused (update_audio_level a s) = is_paused s"
  "stop_event (update_audio_level a s) = stop_event s"
  "trace (update_audio_level a s) = trace s"
  "primary_buffer (update_audio_level a s) = primary_buffer s"
  "secondary_buffer (update_audio_level a s) = secondary_buffer s"
  by (simp_all add: update_audio_level_def Let_def)













subsection \<open>A device that is gone when the stream is reopened\<close>

text \<open>
  The capture thread finds its device missing from the enumerator's list and calls
  \<open>handle_device_disconnection\<close>, which calls \<open>stop_capture\<close> on the capture thread
  itself: the join raises, and the exception reaches the supervisor like any other.
\<close>

lemma capture_loop_stopped: "stop_event s \<Longrightarrow> capture_loop me as s = (Returned, as, s)"
  by (cases as) simp_all

lemma handle_inside:
  assumes "is_capturing s" "capture_thread s = Some me" "secondary_device_id s = None"
  shows "handle_device_disconnection me s =
    (Some CannotJoinCurrentThread,
     s\<lparr>last_error := Some (AudioDeviceDisconnected (current_device_id s)),
       stop_event := True,
       trace := trace s @ reports (error_callback s) (AudioDeviceDisconnected (current_device_id s))\<rparr>)"
  using assms
  by (cases "error_callback s")
     (simp_all add: handle_device_disconnection_def Let_def and_then_def
        stop_capture_inside report_def emit_def reports_def)

lemma absent_device_run:
  assumes "pyaudio_instance s" "\<not> stop_event s" "is_capturing s" "current_device_id s = Some d"
    "\<not> check_device_available (listed a) d" "capture_thread s = Some me"
    "secondary_device_id s = None" "reconnect_attempts s < max_reconnect_attempts s"
  shows "capture_loop me (a # rest) s =
    (Returned, rest,
     s\<lparr>last_error := Some (ErrorInCaptureLoop CannotJoinCurrentThread),
       stop_event := True, stream := False,
       reconnect_attempts := reconnect_attempts s + 1,
       trace := trace s
         @ reports (error_callback s) (AudioDeviceDisconnected (Some d))
         @ reports (error_callback s) (ErrorInCaptureLoop CannotJoinCurrentThread)
         @ reports (error_callback s)
             (AttemptingReconnect (reconnect_attempts s + 1) (max_reconnect_attempts s))
         @ [Sleep (reconnect_delay s)]\<rparr>)"
proof -
  have w: "capture_loop_windows me a s =
    (Raised CannotJoinCurrentThread,
     s\<lparr>last_error := Some (AudioDeviceDisconnected (Some d)),
       stop_event := True,
       trace := trace s @ reports (error_callback s) (AudioDeviceDisconnected (Some d)),
       stream := False\<rparr>)"
    using assms
    by (simp add: capture_loop_windows_def current_device_available_def Let_def
          handle_inside [OF assms(3,6,7)])
  show ?thesis
    using assms(2,8)
    by (cases "error_callback s")
       (simp_all add: w Let_def report_def emit_def reports_def capture_loop_stopped
          del: capture_loop.simps(1))
qed

text \<open>
  C3. On a capturing single-source session whose attempt counter is below the maximum,
  when the enumerator does not list the session's device at an attempt to open the
  stream, the capture thread reports the message that the device is disconnected, then a
  generic "error in capture loop" message (carrying the error of the join), then
  "attempting to reconnect" with the advanced counter, sleeps the reconnect delay, and
  only then returns, because the stop flag is set; it makes no further attempt. The
  session is left capturing, with its device id, and the attempt counter is one higher.
\<close>

theorem device_absent_at_reopen:
  "pyaudio_instance s \<and> \<not> stop_event s \<and> is_capturing s \<and> current_device_id s = Some d \<and>
   \<not> check_device_available (listed a) d \<and> capture_thread s = Some me \<and>
   secondary_device_id s = None \<and> reconnect_attempts s < max_reconnect_attempts s \<longrightarrow>
     fst (capture_loop me (a # rest) s) = Returned \<and>
     fst (snd (capture_loop me (a # rest) s)) = rest \<and>
     is_capturing (snd (snd (capture_loop me (a # rest) s))) \<and>
     stop_event (snd (snd (capture_loop me (a # rest) s))) \<and>
     current_device_id (snd (snd (capture_loop me (a # rest) s))) = Some d \<and>
     reconnect_attempts (snd (snd (capture_loop me (a # rest) s))) = reconnect_attempts s + 1 \<and>
     last_error (snd (snd (capture_loop me (a # rest) s))) =
       Some (ErrorInCaptureLoop CannotJoinCurrentThread) \<and>
     trace (snd (snd (capture_loop me (a # rest) s))) =
       trace s
       @ reports (error_callback s) (AudioDeviceDisconnected (Some d))
       @ reports (error_callback s) (ErrorInCaptureLoop CannotJoinCurrentThread)
       @ reports (error_callback s)
           (AttemptingReconnect (reconnect_attempts s + 1) (max_reconnect_attempts s))
       @ [Sleep (reconnect_delay s)]"
proof
  assume a: "pyaudio_instance s \<and> \<not> stop_event s \<and> is_capturing s \<and>
    current_device_id s = Some d \<and> \<not> check_device_available (listed a) d \<and>
    capture_thread s = Some me \<and> secondary_device_id s = None \<and>
    reconnect_attempts s < max_reconnect_attempts s"
  have run: "capture_loop me (a # rest) s =
    (Returned, rest,
     s\<lparr>last_error := Some (ErrorInCaptureLoop CannotJoinCurrentThread),
       stop_event := True, stream := False,
       reconnect_attempts := reconnect_attempts s + 1,
       trace := trace s
         @ reports (error_callback s) (AudioDeviceDisconnected (Some d))
         @ reports (error_callback s) (ErrorInCaptureLoop CannotJoinCurrentThread)
         @ reports (error_callback s)
             (AttemptingReconnect (reconnect_attempts s + 1) (max_reconnect_attempts s))
         @ [Sleep (reconnect_delay s)]\<rparr>)"
    using a by (intro absent_device_run) simp_all
  show "fst (capture_loop me (a # rest) s) = Returned \<and>
     fst (snd (capture_loop me (a # rest) s)) = rest \<and>
     is_capturing (snd (snd (capture_loop me (a # rest) s))) \<and>
     stop_event (snd (snd (capture_loop me (a # rest) s))) \<and>
     current_device_id (snd (snd (capture_loop me (a # rest) s))) = Some d \<and>
     reconnect_attempts (snd (snd (capture_loop me (a # rest) s))) = reconnect_attempts s + 1 \<and>
     last_error (snd (snd (capture_loop me (a # rest) s))) =
       Some (ErrorInCaptureLoop CannotJoinCurrentThread) \<and>
     trace (snd (snd (capture_loop me (a # rest) s))) =
       trace s
       @ reports (error_callback s) (AudioDeviceDisconnected (Some d))
       @ reports (error_callback s) (ErrorInCaptureLoop CannotJoinCurrentThread)
       @ reports (error_callback s)
           (AttemptingReconnect (reconnect_attempts s + 1) (max_reconnect_attempts s))
       @ [Sleep (reconnect_delay s)]"
    using a by (simp add: run del: capture_loop.simps)
qed

text \<open>
  C3 on the started session (device 7, error callback 0), the enumerator listing device 0
  only: three messages and a sleep of 5 seconds, the second attempt of the script unread.
\<close>

theorem device_absent_at_reopen_witness:
  "pyaudio_instance started_engine \<and> \<not> stop_event started_engine \<and>
   is_capturing started_engine \<and> current_device_id started_engine = Some 7 \<and>
   \<not> check_device_available (listed absent_attempt) 7 \<and>
   capture_thread started_engine = Some 1 \<and> secondary_device_id started_engine = None \<and>
   reconnect_attempts started_engine < max_reconnect_attempts started_engine \<and>
   fst (capture_loop 1 [absent_attempt, good_attempt] started_engine) = Returned \<and>
   fst (snd (capture_loop 1 [absent_attempt, good_attempt] started_engine)) = [good_attempt] \<and>
   is_capturing (snd (snd (capture_loop 1 [absent_attempt, good_attempt] started_engine))) \<and>
   trace (snd (snd (capture_loop 1 [absent_attempt, good_attempt] started_engine))) =
     [ThreadStarted 1 CaptureLoopTarget,
      ErrorReported 0 (AudioDeviceDisconnected (Some 7)),
      ErrorReported 0 (ErrorInCaptureLoop CannotJoinCurrentThread),
      ErrorReported 0 (AttemptingReconnect 1 5),
      Sleep 5]"
proof -
  have hyp: "pyaudio_instance started_engine \<and> \<not> stop_event started_engine \<and>
     is_capturing started_engine \<and> current_device_id started_engine = Some 7 \<and>
     \<not> check_device_available (listed absent_attempt) 7 \<and>
     capture_thread started_engine = Some 1 \<and> secondary_device_id started_engine = None \<and>
     reconnect_attempts started_engine < max_reconnect_attempts started_engine"
    by (simp add: started_engine_fields absent_attempt_def example_device_def
          check_device_available_def)
  note run = device_absent_at_reopen [where s = started_engine and d = 7 and a = absent_attempt
      and me = 1 and rest = "[good_attempt]"]
  have r1: "fst (capture_loop 1 [absent_attempt, good_attempt] started_engine) = Returned"
    using run hyp by blast
  have r2: "fst (snd (capture_loop 1 [absent_attempt, good_attempt] started_engine)) =
      [good_attempt]"
    using run hyp by blast
  have r3: "is_capturing (snd (snd (capture_loop 1 [absent_attempt, good_attempt]
      started_engine)))"
    using run hyp by blast
  have r4: "trace (snd (snd (capture_loop 1 [absent_attempt, good_attempt] started_engine))) =
       trace started_engine
       @ reports (error_callback started_engine) (AudioDeviceDisconnected (Some 7))
       @ reports (error_callback started_engine) (ErrorInCaptureLoop CannotJoinCurrentThread)
       @ reports (error_callback started_engine)
           (AttemptingReconnect (reconnect_attempts started_engine + 1)
              (max_reconnect_attempts started_engine))
       @ [Sleep (reconnect_delay started_engine)]"
    using run hyp by blast
  have r4': "trace (snd (snd (capture_loop 1 [absent_attempt, good_attempt] started_engine))) =
     [ThreadStarted 1 CaptureLoopTarget,
      ErrorReported 0 (AudioDeviceDisconnected (Some 7)),
      ErrorReported 0 (ErrorInCaptureLoop CannotJoinCurrentThread),
      ErrorReported 0 (AttemptingReconnect 1 5),
      Sleep 5]"
    unfolding r4 by (simp add: started_engine_fields reports_def)
  show ?thesis
    using hyp r1 r2 r3 r4' by blast
qed

subsection \<open>Timestamps of the overlapping windows\<close>

text \<open>
  A push onto the empty buffer returns nothing. A push onto a buffer holding one chunk
  transcribes the two chunks together, with timestamps computed from \<open>chunk_index\<close> and
  the length of the two chunks together.
\<close>

lemma first_push:
  "process_with_overlap recognize c (reset_buffer e) =
     (Inr None, e\<lparr>audio_buffer := [c], chunk_index := 0\<rparr>)"
  by (simp add: process_with_overlap_def reset_buffer_def Let_def)

lemma later_push:
  assumes "model_loaded e" "sample_rate e \<noteq> 0" "audio_buffer e = [b]"
  shows "process_with_overlap recognize c e =
     (Inr (Some (make_result (recognize (b @ c) (language e))
        (real_of_int (chunk_index e * int (length (b @ c))) / real_of_int (sample_rate e))
        (real_of_int (chunk_index e * int (length (b @ c))) / real_of_int (sample_rate e)
           + real (length (b @ c)) / real_of_int (sample_rate e)))),
      e\<lparr>audio_buffer := [c], chunk_index := chunk_index e + 1\<rparr>)"
  using assms by (simp add: process_with_overlap_def transcribe_def Let_def)

text \<open>
  C2. From a reset buffer, with the model loaded, pushing three chunks of \<open>n\<close> samples
  each (duration \<open>d = n / sample_rate\<close>) gives: nothing for the first push; for the second
  the result for the window \<open>c0 @ c1\<close> with start 0 and end \<open>2d\<close>; for the third the
  result for the window \<open>c1 @ c2\<close> with start \<open>2d\<close> and end \<open>4d\<close>, the index of the
  window times the length of the window. After \<open>reset_buffer\<close> the next push gives
  nothing again.
\<close>

theorem process_with_overlap_timestamps:
  "model_loaded e \<and> sample_rate e \<noteq> 0 \<and> length c0 = n \<and> length c1 = n \<and> length c2 = n \<longrightarrow>
     (let d = real n / real_of_int (sample_rate e);
          r1 = process_with_overlap recognize c0 (reset_buffer e);
          r2 = process_with_overlap recognize c1 (snd r1);
          r3 = process_with_overlap recognize c2 (snd r2);
          r4 = process_with_overlap recognize c3 (reset_buffer (snd r3))
      in fst r1 = Inr None \<and>
         fst r2 = Inr (Some (make_result (recognize (c0 @ c1) (language e)) 0 (2 * d))) \<and>
         fst r3 = Inr (Some (make_result (recognize (c1 @ c2) (language e)) (2 * d) (4 * d))) \<and>
         fst r4 = Inr None)"
proof
  assume a: "model_loaded e \<and> sample_rate e \<noteq> 0 \<and> length c0 = n \<and> length c1 = n \<and>
    length c2 = n"
  let ?e1 = "e\<lparr>audio_buffer := [c0], chunk_index := 0\<rparr>"
  let ?e2 = "?e1\<lparr>audio_buffer := [c1], chunk_index := chunk_index ?e1 + 1\<rparr>"
  let ?e3 = "?e2\<lparr>audio_buffer := [c2], chunk_index := chunk_index ?e2 + 1\<rparr>"
  let ?d = "real n / real_of_int (sample_rate e)"
  have r1: "process_with_overlap recognize c0 (reset_buffer e) = (Inr None, ?e1)"
    by (rule first_push)
  have r2: "process_with_overlap recognize c1 ?e1 =
      (Inr (Some (make_result (recognize (c0 @ c1) (language e)) 0 (2 * ?d))), ?e2)"
    using a by (subst later_push [where b = c0]) (simp_all add: field_simps)
  have r3: "process_with_overlap recognize c2 ?e2 =
      (Inr (Some (make_result (recognize (c1 @ c2) (language e)) (2 * ?d) (4 * ?d))), ?e3)"
    using a by (subst later_push [where b = c1]) (simp_all add: field_simps)
  have r4: "process_with_overlap recognize c3 (reset_buffer ?e3) =
      (Inr None, ?e3\<lparr>audio_buffer := [c3], chunk_index := 0\<rparr>)"
    by (rule first_push)
  show "let d = real n / real_of_int (sample_rate e);
          r1 = process_with_overlap recognize c0 (reset_buffer e);
          r2 = process_with_overlap recognize c1 (snd r1);
          r3 = process_with_overlap recognize c2 (snd r2);
          r4 = process_with_overlap recognize c3 (reset_buffer (snd r3))
      in fst r1 = Inr None \<and>
         fst r2 = Inr (Some (make_result (recognize (c0 @ c1) (language e)) 0 (2 * d))) \<and>
         fst r3 = Inr (Some (make_result (recognize (c1 @ c2) (language e)) (2 * d) (4 * d))) \<and>
         fst r4 = Inr None"
    unfolding Let_def r1 snd_conv fst_conv r2 r3 r4 by simp
qed

text \<open>
  C2 on the engine as constructed (16000 Hz), with three chunks of one second each: the
  third push is stamped from 2 to 4 seconds.
\<close>

theorem process_with_overlap_timestamps_witness:
  "model_loaded init_transcription_engine \<and> sample_rate init_transcription_engine \<noteq> 0 \<and>
   length (replicate 16000 (0::real)) = 16000 \<and>
   fst (process_with_overlap example_recognizer (replicate 16000 0)
          (reset_buffer init_transcription_engine)) = Inr None \<and>
   fst (process_with_overlap example_recognizer (replicate 16000 1)
          (snd (process_with_overlap example_recognizer (replicate 16000 0)
             (reset_buffer init_transcription_engine)))) =
     Inr (Some \<lparr>r_text = ''hello'', r_language = ''en'', confidence = 9 / 10,
                 start_time = 0, end_time = 2\<rparr>) \<and>
   fst (process_with_overlap example_recognizer (replicate 16000 2)
          (snd (process_with_overlap example_recognizer (replicate 16000 1)
             (snd (process_with_overlap example_recognizer (replicate 16000 0)
                (reset_buffer init_transcription_engine)))))) =
     Inr (Some \<lparr>r_text = ''hello'', r_language = ''en'', confidence = 9 / 10,
                 start_time = 2, end_time = 4\<rparr>)"
proof -
  have hyp: "model_loaded init_transcription_engine \<and>
      sample_rate init_transcription_engine \<noteq> 0 \<and>
      length (replicate 16000 (0::real)) = 16000 \<and>
      length (replicate 16000 (1::real)) = 16000 \<and>
      length (replicate 16000 (2::real)) = 16000"
    by (simp add: init_transcription_engine_def)
  have d: "real 16000 / real_of_int (sample_rate init_transcription_engine) = 1"
    by (simp add: init_transcription_engine_def)
  note run = process_with_overlap_timestamps [where e = init_transcription_engine
      and ?c0.0 = "replicate 16000 0" and ?c1.0 = "replicate 16000 1"
      and ?c2.0 = "replicate 16000 2" and ?c3.0 = "[]" and n = 16000
      and recognize = example_recognizer, unfolded Let_def d]
  show ?thesis
    using hyp run by (simp add: make_result_def example_recognizer_def
        init_transcription_engine_def)
qed

end
